theory Spec2Isabelle
  imports Complex_Main "HOL-Library.Sublist" "HOL-Library.List_Lexorder" "HOL-Library.Char_ord"
begin

section \<open>Foodiefy: the restaurant recommender script\<close>

text \<open>
  A shallow embedding of \<^verbatim>\<open>restaurant_recommender.py\<close>. The script is module-level
  code around two functions, \<^verbatim>\<open>load_data\<close> and \<^verbatim>\<open>load_models\<close>; each block of
  module-level code is a definition here, named after what it does, with the source
  lines it embeds.

  Conventions.
  \<^item> Python text is a \<^typ>\<open>string\<close> of ASCII characters; a missing cell (pandas' NaN) of
    a text column is \<^term>\<open>None\<close>. Where letter case is folded, the statement says that
    its texts are ASCII.
  \<^item> The text columns have pandas' object dtype, as \<^verbatim>\<open>read_csv\<close> gives a column that holds
    at least one string, or no row at all.
  \<^item> Exceptions are values of \<^typ>\<open>'a option\<close> or of a sum, and what the script shows on
    the page is a list of events.
  \<^item> The two pickled artifacts are not program text: the fitted vectorizer is a
    function from one document to its vector (a TF-IDF transform works row by row,
    with the weights fixed at fitting time), and the fitted nearest-neighbour index is a
    function from a query vector and a neighbour count to the indices it answers with.
\<close>

subsection \<open>Exceptions and page events\<close>

datatype py_error =
    KeyError string
  | FileNotFoundError string
  | ValueError
  | TypeError
  | IndexError
  | Re_error
  | Unmodelled_pattern

record card =
  card_name :: "string option"
  card_address :: string
  card_cuisines :: "string option"
  card_rating :: "real option"
  card_votes :: "int option"
  card_maps_url :: string

datatype 'v event =
    St_error
  | St_warning
  | St_success nat
  | St_info
  | Kneighbors "'v list" nat
  | St_heading
  | St_card card

subsection \<open>The restaurant table\<close>

record row =
  Restaurant_Name :: "string option"
  Cuisines :: "string option"
  Locality :: "string option"
  Detail_address :: "string option"
  Ratings_out_of_5 :: "real option"
  Number_of_votes :: "int option"
  combined_text :: "string option"

text \<open>
  A DataFrame: the names of its columns, and its rows in order, each with its index
  label. A field of a \<^typ>\<open>row\<close> is read only through \<open>getitem\<close> and \<open>row_getitem\<close>, which
  raise \<open>KeyError\<close> when the frame has no column of that name (the value of the field is
  then never looked at).
\<close>

record dataframe =
  columns :: "string list"
  rows :: "(nat \<times> row) list"

definition empty_frame :: dataframe where
  "empty_frame = \<lparr>columns = [], rows = []\<rparr>"

text \<open>\<^verbatim>\<open>df[name]\<close>: the column as a list of cells, in row order.\<close>

definition getitem :: "dataframe \<Rightarrow> string \<Rightarrow> (row \<Rightarrow> 'a) \<Rightarrow> py_error + 'a list" where
  "getitem d name field =
     (if name \<in> set (columns d) then Inr (map (\<lambda>p. field (snd p)) (rows d))
      else Inl (KeyError name))"

text \<open>\<^verbatim>\<open>r[name]\<close> for a row \<open>r\<close> taken out of the frame \<open>d\<close>.\<close>

definition row_getitem :: "dataframe \<Rightarrow> row \<Rightarrow> string \<Rightarrow> (row \<Rightarrow> 'a) \<Rightarrow> py_error + 'a" where
  "row_getitem d r name field =
     (if name \<in> set (columns d) then Inr (field r) else Inl (KeyError name))"

text \<open>\<^verbatim>\<open>d[mask]\<close>: the rows whose mask entry is true, labels kept, columns unchanged.\<close>

definition boolean_index :: "dataframe \<Rightarrow> bool list \<Rightarrow> dataframe" where
  "boolean_index d keep = d\<lparr>rows := map fst (filter snd (zip (rows d) keep))\<rparr>"

text \<open>\<^verbatim>\<open>d.empty\<close>: some axis has length zero.\<close>

definition frame_empty :: "dataframe \<Rightarrow> bool" where
  "frame_empty d = (rows d = [] \<or> columns d = [])"

text \<open>\<^verbatim>\<open>d.iloc[i]\<close>: the row at position \<open>i\<close>.\<close>

definition iloc :: "dataframe \<Rightarrow> nat \<Rightarrow> py_error + row" where
  "iloc d i = (if i < length (rows d) then Inr (snd (rows d ! i)) else Inl IndexError)"

subsection \<open>Files: \<^verbatim>\<open>load_data\<close> (lines 9-24) and \<^verbatim>\<open>load_models\<close> (lines 27-45)\<close>

text \<open>
  What the script finds on disk. A file that does not exist is \<^term>\<open>None\<close>. The CSV file
  is given as parsed: its header and its records; \<^verbatim>\<open>read_csv\<close> labels the records
  \<open>0, 1, 2, ...\<close>.
\<close>

record 'v files =
  data_csv :: "(string list \<times> row list) option"
  vectorizer_pkl :: "(string \<Rightarrow> 'v) option"
  knn_pkl :: "('v \<Rightarrow> nat \<Rightarrow> py_error + nat list) option"

definition read_csv :: "string list \<times> row list \<Rightarrow> dataframe" where
  "read_csv f = \<lparr>columns = fst f, rows = zip [0 ..< length (snd f)] (snd f)\<rparr>"

definition load_data :: "'v files \<Rightarrow> 'v event list \<times> dataframe" where
  "load_data fs =
     (case data_csv fs of
        None \<Rightarrow> ([St_error], empty_frame)
      | Some f \<Rightarrow> ([], read_csv f))"

definition load_models ::
  "'v files \<Rightarrow> py_error + (string \<Rightarrow> 'v) \<times> ('v \<Rightarrow> nat \<Rightarrow> py_error + nat list)" where
  "load_models fs =
     (case vectorizer_pkl fs of
        None \<Rightarrow> Inl (FileNotFoundError ''models/tfidf_vectorizer.pkl'')
      | Some vectorizer \<Rightarrow>
          (case knn_pkl fs of
             None \<Rightarrow> Inl (FileNotFoundError ''models/knn_recommender_model.pkl'')
           | Some knn_model \<Rightarrow> Inr (vectorizer, knn_model)))"

subsection \<open>The text features (lines 52-53)\<close>

text \<open>
  \<^verbatim>\<open>+\<close> on two object columns, cell by cell: the concatenation where both cells hold
  text, NaN where either is missing.
\<close>

definition str_add :: "string option \<Rightarrow> string option \<Rightarrow> string option" where
  "str_add a b = (case a of None \<Rightarrow> None | Some x \<Rightarrow> (case b of None \<Rightarrow> None | Some y \<Rightarrow> Some (x @ y)))"

definition combine :: "row \<Rightarrow> string option" where
  "combine r =
     str_add (str_add (str_add (str_add (Restaurant_Name r) (Some '' '')) (Cuisines r)) (Some '' ''))
       (Locality r)"

text \<open>
  Line 52. The three columns are looked up left to right, so the first one that is
  missing is the one the \<open>KeyError\<close> names; the new column is appended unless the frame
  has it already.
\<close>

definition add_combined_text :: "dataframe \<Rightarrow> py_error + dataframe" where
  "add_combined_text d =
     (if ''Restaurant_Name'' \<notin> set (columns d) then Inl (KeyError ''Restaurant_Name'')
      else if ''Cuisines'' \<notin> set (columns d) then Inl (KeyError ''Cuisines'')
      else if ''Locality'' \<notin> set (columns d) then Inl (KeyError ''Locality'')
      else Inr \<lparr>columns = (if ''combined_text'' \<in> set (columns d) then columns d
                            else columns d @ [''combined_text'']),
                rows = map (\<lambda>p. (fst p, (snd p)\<lparr>combined_text := combine (snd p)\<rparr>)) (rows d)\<rparr>)"

text \<open>
  \<^verbatim>\<open>vectorizer.transform(docs)\<close>, for a fitted TF-IDF vectorizer. The counting pass reads
  the documents in order and refuses one that is NaN with \<open>ValueError\<close> (``np.nan is an
  invalid document''); the weighting pass then refuses a batch of no document at all,
  with \<open>ValueError\<close> too (``Found array with 0 sample(s)''); otherwise there is one vector
  per document, in order.
\<close>

fun count_vocab :: "(string \<Rightarrow> 'v) \<Rightarrow> string option list \<Rightarrow> py_error + 'v list" where
  "count_vocab vectorizer [] = Inr []"
| "count_vocab vectorizer (None # docs) = Inl ValueError"
| "count_vocab vectorizer (Some doc # docs) =
     (case count_vocab vectorizer docs of
        Inl e \<Rightarrow> Inl e
      | Inr vs \<Rightarrow> Inr (vectorizer doc # vs))"

definition transform :: "(string \<Rightarrow> 'v) \<Rightarrow> string option list \<Rightarrow> py_error + 'v list" where
  "transform vectorizer docs =
     (case count_vocab vectorizer docs of
        Inl e \<Rightarrow> Inl e
      | Inr vs \<Rightarrow> if vs = [] then Inl ValueError else Inr vs)"

text \<open>The module's global variables once lines 49-53 have run.\<close>

record 'v globals =
  df :: dataframe
  vectorizer :: "string \<Rightarrow> 'v"
  knn_model :: "'v \<Rightarrow> nat \<Rightarrow> py_error + nat list"
  tfidf_matrix :: "'v list"
  filtered_df :: "dataframe option"

text \<open>Lines 49-53: the events shown so far, and the globals or the exception raised.\<close>

definition startup :: "'v files \<Rightarrow> 'v event list \<times> (py_error + 'v globals)" where
  "startup fs =
     (case load_data fs of (shown, d0) \<Rightarrow>
        (shown,
         (case load_models fs of
            Inl e \<Rightarrow> Inl e
          | Inr (vec, knn) \<Rightarrow>
              (case add_combined_text d0 of
                 Inl e \<Rightarrow> Inl e
               | Inr d \<Rightarrow>
                   (case getitem d ''combined_text'' combined_text of
                      Inl e \<Rightarrow> Inl e
                    | Inr docs \<Rightarrow>
                        (case transform vec docs of
                           Inl e \<Rightarrow> Inl e
                         | Inr m \<Rightarrow>
                             Inr \<lparr>df = d, vectorizer = vec, knn_model = knn,
                                  tfidf_matrix = m, filtered_df = None\<rparr>))))))"

subsection \<open>The sidebar options (lines 72-76)\<close>

definition dropna :: "'a option list \<Rightarrow> 'a list" where
  "dropna cells = List.map_filter (\<lambda>c. c) cells"

text \<open>\<^verbatim>\<open>sep.join(xs)\<close>.\<close>

fun join :: "string \<Rightarrow> string list \<Rightarrow> string" where
  "join sep [] = []"
| "join sep [x] = x"
| "join sep (x # y # ys) = x @ sep @ join sep (y # ys)"

text \<open>
  \<^verbatim>\<open>s.split(", ")\<close>, with the piece read so far kept in reverse: the text is cut at each
  comma followed by a space, left to right, and an empty text gives one empty piece.
\<close>

fun split_comma :: "string \<Rightarrow> string \<Rightarrow> string list" where
  "split_comma piece [] = [rev piece]"
| "split_comma piece [c] = [rev (c # piece)]"
| "split_comma piece (c # d # cs) =
     (if c = CHR '','' \<and> d = CHR '' '' then rev piece # split_comma [] cs
      else split_comma (c # piece) (d # cs))"

definition localities :: "dataframe \<Rightarrow> py_error + string list" where
  "localities d =
     (case getitem d ''Locality'' Locality of
        Inl e \<Rightarrow> Inl e
      | Inr cells \<Rightarrow> Inr (sort (remdups (dropna cells))))"

definition cuisines :: "dataframe \<Rightarrow> py_error + string list" where
  "cuisines d =
     (case getitem d ''Cuisines'' Cuisines of
        Inl e \<Rightarrow> Inl e
      | Inr cells \<Rightarrow> Inr (sort (remdups (split_comma [] (join '', '' (dropna cells))))))"

text \<open>What the two select boxes offer; the user's choice is one of the offered texts.\<close>

definition locality_options :: "dataframe \<Rightarrow> string list" where
  "locality_options d = ''Any'' # (case localities d of Inl e \<Rightarrow> [] | Inr xs \<Rightarrow> xs)"

definition cuisine_options :: "dataframe \<Rightarrow> string list" where
  "cuisine_options d = ''Any'' # (case cuisines d of Inl e \<Rightarrow> [] | Inr xs \<Rightarrow> xs)"

subsection \<open>Pattern search: \<^verbatim>\<open>Series.str.contains(pat, case=False, na=False)\<close>\<close>

text \<open>
  \<^verbatim>\<open>str.contains\<close> has \<^verbatim>\<open>regex=True\<close> unless told otherwise: it compiles \<open>pat\<close> with
  \<^verbatim>\<open>re.compile(pat, re.IGNORECASE)\<close> and keeps the cells in which \<^verbatim>\<open>search\<close> finds a
  match. The model follows the parser of \<^verbatim>\<open>re\<close> for the patterns written with ordinary
  characters, the dot, the anchors \<^verbatim>\<open>^\<close> and \<^verbatim>\<open>$\<close>, groups in parentheses, alternatives
  separated by \<^verbatim>\<open>|\<close>, and the repeats \<^verbatim>\<open>*\<close>, \<^verbatim>\<open>+\<close> and \<^verbatim>\<open>?\<close>, greedy or lazy. It raises
  \<^verbatim>\<open>re.error\<close> (\<open>Re_error\<close>) where that parser does: a repeat with nothing to repeat, a
  repeat of a repeat, a parenthesis without its partner.

  Outside the model are a character set (\<^verbatim>\<open>[\<close>), a counted repeat (\<^verbatim>\<open>{\<close>), an escape
  (a backslash), a group that starts with \<^verbatim>\<open>(?\<close>, and a repeat followed by \<^verbatim>\<open>+\<close> (an
  error before Python 3.11, a possessive repeat since): compiling such a pattern gives
  \<open>Unmodelled_pattern\<close>, and no statement below is about such a pattern.

  Letter case is folded for the letters of ASCII; a statement that compares with folded
  case says that its texts are ASCII.
\<close>

definition lower_char :: "char \<Rightarrow> char" where
  "lower_char c =
     (let n = (of_char c :: nat) in if 65 \<le> n \<and> n \<le> 90 then char_of (n + 32) else c)"

definition ascii :: "string \<Rightarrow> bool" where
  "ascii s = list_all (\<lambda>c. (of_char c :: nat) < 128) s"

text \<open>The characters that the parser does not read as themselves (\<^verbatim>\<open>SPECIAL_CHARS\<close>).\<close>

definition re_special :: string where
  "re_special = ''.[{()*+?^$|'' @ [CHR 0x5C]"

datatype regex =
    Eps
  | Literal char
  | Dot
  | At_beginning
  | At_end
  | Cat regex regex
  | Branch regex regex
  | Subpattern regex
  | Zero_or_more regex
  | One_or_more regex
  | Zero_or_one regex

fun is_at :: "regex \<Rightarrow> bool" where
  "is_at At_beginning = True"
| "is_at At_end = True"
| "is_at r = False"

fun is_repeat :: "regex \<Rightarrow> bool" where
  "is_repeat (Zero_or_more r) = True"
| "is_repeat (One_or_more r) = True"
| "is_repeat (Zero_or_one r) = True"
| "is_repeat r = False"

definition repeat_of :: "char \<Rightarrow> regex \<Rightarrow> regex" where
  "repeat_of c r =
     (if c = CHR ''*'' then Zero_or_more r
      else if c = CHR ''+'' then One_or_more r
      else Zero_or_one r)"

text \<open>
  The parser reads the pattern from left to right. Of the (sub)pattern it is in, it
  holds the alternatives that are closed and the items of the open one, both latest
  first; the same for each group around it.
\<close>

type_synonym frame = "regex list \<times> regex list"

definition sequence :: "regex list \<Rightarrow> regex" where
  "sequence items = foldl (\<lambda>rest item. Cat item rest) Eps items"

definition alternatives :: "frame \<Rightarrow> regex" where
  "alternatives f = foldl (\<lambda>rest b. Branch b rest) (sequence (snd f)) (fst f)"

fun parse :: "frame list \<Rightarrow> frame \<Rightarrow> string \<Rightarrow> py_error + regex" where
  "parse outer f [] = (if outer = [] then Inr (alternatives f) else Inl Re_error)"
| "parse outer f (c # cs) =
     (if c = CHR ''('' then
        (case cs of
           [] \<Rightarrow> Inl Re_error
         | d # ds \<Rightarrow> if d = CHR ''?'' then Inl Unmodelled_pattern else parse (f # outer) ([], []) cs)
      else if c = CHR '')'' then
        (case outer of
           [] \<Rightarrow> Inl Re_error
         | g # gs \<Rightarrow> parse gs (fst g, Subpattern (alternatives f) # snd g) cs)
      else if c = CHR ''|'' then parse outer (sequence (snd f) # fst f, []) cs
      else if c = CHR ''*'' \<or> c = CHR ''+'' \<or> c = CHR ''?'' then
        (case snd f of
           [] \<Rightarrow> Inl Re_error
         | item # items \<Rightarrow>
             if is_at item \<or> is_repeat item then Inl Re_error
             else
               (case cs of
                  [] \<Rightarrow> parse outer (fst f, repeat_of c item # items) cs
                | d # ds \<Rightarrow>
                    if d = CHR ''?'' then parse outer (fst f, repeat_of c item # items) ds
                    else if d = CHR ''+'' then Inl Unmodelled_pattern
                    else parse outer (fst f, repeat_of c item # items) cs))
      else if c = CHR ''.'' then parse outer (fst f, Dot # snd f) cs
      else if c = CHR ''^'' then parse outer (fst f, At_beginning # snd f) cs
      else if c = CHR ''$'' then parse outer (fst f, At_end # snd f) cs
      else if c \<in> set re_special then Inl Unmodelled_pattern
      else parse outer (fst f, Literal c # snd f) cs)"

definition re_compile :: "string \<Rightarrow> py_error + regex" where
  "re_compile pat = parse [] ([], []) pat"

text \<open>
  Matching. A cursor is the text still to read, with whether it is the whole text. For
  a pattern and a cursor, \<open>ends\<close> lists the cursors at which a match that starts there can
  end. The anchor \<^verbatim>\<open>^\<close> holds at the start of the text only, \<^verbatim>\<open>$\<close> at its end and before
  a newline that ends it; a dot reads any character but a newline. A repeat follows its
  body as long as the body reads something, so it looks at no cursor twice.
\<close>

type_synonym cursor = "bool \<times> string"

function star :: "(cursor \<Rightarrow> cursor list) \<Rightarrow> cursor \<Rightarrow> cursor list" where
  "star step x =
     x # concat (map (star step) (filter (\<lambda>y. length (snd y) < length (snd x)) (step x)))"
  by pat_completeness auto
termination
  by (relation "measure (\<lambda>p. length (snd (snd p)))") auto

primrec ends :: "regex \<Rightarrow> cursor \<Rightarrow> cursor list" where
  "ends Eps x = [x]"
| "ends (Literal a) x =
     (case snd x of
        [] \<Rightarrow> []
      | c # cs \<Rightarrow> if lower_char a = lower_char c then [(False, cs)] else [])"
| "ends Dot x =
     (case snd x of
        [] \<Rightarrow> []
      | c # cs \<Rightarrow> if c \<noteq> CHR 0x0A then [(False, cs)] else [])"
| "ends At_beginning x = (if fst x then [x] else [])"
| "ends At_end x = (if snd x = [] \<or> snd x = [CHR 0x0A] then [x] else [])"
| "ends (Cat r1 r2) x = concat (map (ends r2) (ends r1 x))"
| "ends (Branch r1 r2) x = ends r1 x @ ends r2 x"
| "ends (Subpattern r) x = ends r x"
| "ends (Zero_or_more r) x = star (ends r) x"
| "ends (One_or_more r) x = concat (map (star (ends r)) (ends r x))"
| "ends (Zero_or_one r) x = x # ends r x"

text \<open>\<^verbatim>\<open>search\<close>: the pattern matches from some position of the text.\<close>

fun search_from :: "regex \<Rightarrow> bool \<Rightarrow> string \<Rightarrow> bool" where
  "search_from r b [] = (ends r (b, []) \<noteq> [])"
| "search_from r b (c # s) = (ends r (b, c # s) \<noteq> [] \<or> search_from r False s)"

definition re_search :: "regex \<Rightarrow> string \<Rightarrow> bool" where
  "re_search r s = search_from r True s"

definition str_contains :: "string option list \<Rightarrow> string \<Rightarrow> py_error + bool list" where
  "str_contains cells pat =
     (case re_compile pat of
        Inl e \<Rightarrow> Inl e
      | Inr p \<Rightarrow> Inr (map (\<lambda>c. case c of None \<Rightarrow> False | Some s \<Rightarrow> re_search p s) cells))"

subsection \<open>The filters (lines 82-88)\<close>

text \<open>Line 85. A missing locality is equal to no text.\<close>

definition locality_filter :: "dataframe \<Rightarrow> string \<Rightarrow> py_error + dataframe" where
  "locality_filter d selected_locality =
     (case getitem d ''Locality'' Locality of
        Inl e \<Rightarrow> Inl e
      | Inr cells \<Rightarrow> Inr (boolean_index d (map (\<lambda>c. c = Some selected_locality) cells)))"

text \<open>Line 88.\<close>

definition cuisine_filter :: "dataframe \<Rightarrow> string \<Rightarrow> py_error + dataframe" where
  "cuisine_filter d selected_cuisine =
     (case getitem d ''Cuisines'' Cuisines of
        Inl e \<Rightarrow> Inl e
      | Inr cells \<Rightarrow>
          (case str_contains cells selected_cuisine of
             Inl e \<Rightarrow> Inl e
           | Inr keep \<Rightarrow> Inr (boolean_index d keep)))"

text \<open>
  Lines 82-88: the value of \<^verbatim>\<open>filtered_df\<close> after its last assignment, and the
  exception that stopped the block, if one did.
\<close>

definition apply_filters :: "dataframe \<Rightarrow> string \<Rightarrow> string \<Rightarrow> dataframe \<times> py_error option" where
  "apply_filters d selected_locality selected_cuisine =
     (case (if selected_locality \<noteq> ''Any'' then locality_filter d selected_locality else Inr d) of
        Inl e \<Rightarrow> (d, Some e)
      | Inr d1 \<Rightarrow>
          (case (if selected_cuisine \<noteq> ''Any'' then cuisine_filter d1 selected_cuisine else Inr d1) of
             Inl e \<Rightarrow> (d1, Some e)
           | Inr d2 \<Rightarrow> (d2, None)))"

subsection \<open>The recommendations (lines 95-113)\<close>

text \<open>
  \<^verbatim>\<open>knn_model.kneighbors(X, n_neighbors=k)\<close>: one answer of the index per row of the
  query matrix.
\<close>

fun kneighbors ::
  "('v \<Rightarrow> nat \<Rightarrow> py_error + nat list) \<Rightarrow> 'v list \<Rightarrow> nat \<Rightarrow> py_error + nat list list" where
  "kneighbors knn [] k = Inr []"
| "kneighbors knn (q # qs) k =
     (case knn q k of
        Inl e \<Rightarrow> Inl e
      | Inr ns \<Rightarrow>
          (case kneighbors knn qs k of Inl e \<Rightarrow> Inl e | Inr nss \<Rightarrow> Inr (ns # nss)))"

text \<open>
  \<^verbatim>\<open>urllib.parse.quote_plus\<close> on the UTF-8 bytes of a text: letters, digits and
  \<^verbatim>\<open>_.-~\<close> stay, a space becomes a plus sign, any other byte becomes a percent sign and
  two upper-case hexadecimal digits.
\<close>

definition unreserved :: "char \<Rightarrow> bool" where
  "unreserved c =
     (let n = (of_char c :: nat) in
        (65 \<le> n \<and> n \<le> 90) \<or> (97 \<le> n \<and> n \<le> 122) \<or> (48 \<le> n \<and> n \<le> 57) \<or> c \<in> set ''_.-~'')"

definition hex_digit :: "nat \<Rightarrow> char" where
  "hex_digit n = ''0123456789ABCDEF'' ! (n mod 16)"

definition quote_plus :: "string \<Rightarrow> string" where
  "quote_plus s =
     concat (map (\<lambda>c. if c = CHR '' '' then ''+''
                       else if unreserved c then [c]
                       else [CHR ''%'', hex_digit (of_char c div 16), hex_digit (of_char c)]) s)"

text \<open>The card of lines 105-113 for the row \<open>r\<close>, whose address is \<open>address\<close>.\<close>

definition make_card :: "row \<Rightarrow> string \<Rightarrow> card" where
  "make_card r address =
     \<lparr>card_name = Restaurant_Name r, card_address = address,
      card_cuisines = Cuisines r, card_rating = Ratings_out_of_5 r,
      card_votes = Number_of_votes r,
      card_maps_url = ''https://www.google.com/maps/search/?api=1&query='' @ quote_plus address\<rparr>"

text \<open>
  Lines 102-113 for one index: the row is read from \<open>d\<close> by position, the address is
  quoted (\<open>TypeError\<close> when it is missing), then the five fields of the card are read
  in the order in which the text of the card names them.
\<close>

definition render_card :: "dataframe \<Rightarrow> nat \<Rightarrow> py_error + card" where
  "render_card d i =
     (case iloc d i of
        Inl e \<Rightarrow> Inl e
      | Inr r \<Rightarrow>
          (case row_getitem d r ''Detail_address'' Detail_address of
             Inl e \<Rightarrow> Inl e
           | Inr None \<Rightarrow> Inl TypeError
           | Inr (Some address) \<Rightarrow>
               (if ''Restaurant_Name'' \<notin> set (columns d) then Inl (KeyError ''Restaurant_Name'')
                else if ''Cuisines'' \<notin> set (columns d) then Inl (KeyError ''Cuisines'')
                else if ''Ratings_out_of_5'' \<notin> set (columns d) then Inl (KeyError ''Ratings_out_of_5'')
                else if ''Number of votes'' \<notin> set (columns d) then Inl (KeyError ''Number of votes'')
                else Inr (make_card r address))))"

text \<open>
  The loop of line 101: one card per index, until an exception stops it. The result is
  the cards shown, in order, and the exception, if one was raised.
\<close>

fun present :: "dataframe \<Rightarrow> nat list \<Rightarrow> card list \<times> py_error option" where
  "present d [] = ([], None)"
| "present d (i # is) =
     (case render_card d i of
        Inl e \<Rightarrow> ([], Some e)
      | Inr c \<Rightarrow> (case present d is of (cs, r) \<Rightarrow> (c # cs, r)))"

text \<open>
  Lines 96-113, for a view \<open>fd\<close> that is not empty: the seed is the first row of the
  view, its combined text is vectorized, the index is asked for 6 neighbours, and the
  rows at all the indices of the first answer but the first one are shown, read from
  the global \<open>df\<close>.
\<close>

definition recommend :: "'v globals \<Rightarrow> dataframe \<Rightarrow> 'v event list \<times> py_error option" where
  "recommend g fd =
     (case iloc fd 0 of
        Inl e \<Rightarrow> ([], Some e)
      | Inr seed \<Rightarrow>
          (case row_getitem fd seed ''combined_text'' combined_text of
             Inl e \<Rightarrow> ([], Some e)
           | Inr query \<Rightarrow>
               (case transform (vectorizer g) [query] of
                  Inl e \<Rightarrow> ([], Some e)
                | Inr query_vec \<Rightarrow>
                    (case kneighbors (knn_model g) query_vec 6 of
                       Inl e \<Rightarrow> ([Kneighbors query_vec 6], Some e)
                     | Inr [] \<Rightarrow> ([Kneighbors query_vec 6], Some IndexError)
                     | Inr (ns # nss) \<Rightarrow>
                         (case present (df g) (tl ns) of
                            (cs, r) \<Rightarrow>
                              (Kneighbors query_vec 6 # St_heading # map St_card cs, r))))))"

text \<open>What a run of the button handler leaves behind.\<close>

record 'v outcome =
  shown :: "'v event list"
  globals_after :: "'v globals"
  raised :: "py_error option"

text \<open>Lines 79-113, the button pressed.\<close>

definition find_restaurants :: "'v globals \<Rightarrow> string \<Rightarrow> string \<Rightarrow> 'v outcome" where
  "find_restaurants g selected_locality selected_cuisine =
     (case apply_filters (df g) selected_locality selected_cuisine of
        (fd, err) \<Rightarrow>
          (case err of
             Some e \<Rightarrow> \<lparr>shown = [], globals_after = g\<lparr>filtered_df := Some fd\<rparr>, raised = Some e\<rparr>
           | None \<Rightarrow>
               if frame_empty fd then
                 \<lparr>shown = [St_warning], globals_after = g\<lparr>filtered_df := Some fd\<rparr>, raised = None\<rparr>
               else
                 (case recommend (g\<lparr>filtered_df := Some fd\<rparr>) fd of
                    (evs, r) \<Rightarrow>
                      \<lparr>shown = St_success (length (rows fd)) # evs,
                       globals_after = g\<lparr>filtered_df := Some fd\<rparr>, raised = r\<rparr>)))"

subsection \<open>The whole script\<close>

record ui =
  selected_locality :: string
  selected_cuisine :: string
  button :: bool

text \<open>
  One run of the script: everything shown, and the exception that ended the run, if
  one did. The styling, the title and the footer (lines 55-68 and 117-118) are left out.
\<close>

definition app :: "'v files \<Rightarrow> ui \<Rightarrow> 'v event list \<times> py_error option" where
  "app fs u =
     (case startup fs of
        (evs, Inl e) \<Rightarrow> (evs, Some e)
      | (evs, Inr g) \<Rightarrow>
          if button u then
            (case find_restaurants g (selected_locality u) (selected_cuisine u) of
               out \<Rightarrow> (evs @ shown out, raised out))
          else (evs @ [St_info], None))"

subsection \<open>Reference notions for the cuisine criterion\<close>

text \<open>
  The words of the specification, to compare the pattern search with: a text contains
  another ``as a case-insensitive substring'' when, letters folded to lower case, the
  second occurs in the first as a block; it contains it literally when it does so
  without folding. A criterion is plain when none of its characters is special in a
  pattern.
\<close>

definition contains_ignoring_case :: "string \<Rightarrow> string \<Rightarrow> bool" where
  "contains_ignoring_case s sub = sublist (map lower_char sub) (map lower_char s)"

definition contains_literally :: "string \<Rightarrow> string \<Rightarrow> bool" where
  "contains_literally s sub = sublist sub s"

definition plain :: "string \<Rightarrow> bool" where
  "plain pat = (set pat \<inter> set re_special = {})"

text \<open>
  The rows a criterion keeps when cuisines are compared as the specification says, and
  when they are compared letter for letter.
\<close>

definition literally_keeps :: "string \<Rightarrow> nat \<times> row \<Rightarrow> bool" where
  "literally_keeps sub p =
     (case Cuisines (snd p) of None \<Rightarrow> False | Some s \<Rightarrow> contains_literally s sub)"

definition substring_keeps :: "string \<Rightarrow> nat \<times> row \<Rightarrow> bool" where
  "substring_keeps sub p =
     (case Cuisines (snd p) of None \<Rightarrow> False | Some s \<Rightarrow> contains_ignoring_case s sub)"

subsection \<open>Reading a run\<close>

text \<open>
  The addresses on the cards of a run, in the order shown, and the columns that a card
  reads.
\<close>

fun card_addresses :: "'v event list \<Rightarrow> string list" where
  "card_addresses [] = []"
| "card_addresses (St_card c # evs) = card_address c # card_addresses evs"
| "card_addresses (ev # evs) = card_addresses evs"

definition has_card_columns :: "dataframe \<Rightarrow> bool" where
  "has_card_columns d =
     (''Detail_address'' \<in> set (columns d) \<and> ''Restaurant_Name'' \<in> set (columns d)
      \<and> ''Cuisines'' \<in> set (columns d) \<and> ''Ratings_out_of_5'' \<in> set (columns d)
      \<and> ''Number of votes'' \<in> set (columns d))"

subsection \<open>A sample installation\<close>

text \<open>
  A table of six restaurants and two artifacts to run the script on. The sample
  vectorizer folds case, as a TF-IDF vectorizer does before it counts words; the sample
  index is an exhaustive nearest-neighbour search over the vectors it was fitted on,
  nearest first, equal distances in the order of the rows.
\<close>

definition restaurant :: "string \<Rightarrow> string \<Rightarrow> string \<Rightarrow> string \<Rightarrow> row" where
  "restaurant name cuisine locality address =
     \<lparr>Restaurant_Name = Some name, Cuisines = Some cuisine, Locality = Some locality,
      Detail_address = Some address, Ratings_out_of_5 = Some 4, Number_of_votes = Some 120,
      combined_text = None\<rparr>"

definition sample_header :: "string list" where
  "sample_header =
     [''Restaurant_Name'', ''Cuisines'', ''Locality'', ''Detail_address'',
      ''Ratings_out_of_5'', ''Number of votes'']"

definition sample_records :: "row list" where
  "sample_records =
     [restaurant ''Dominos'' ''Pizza, Fast Food'' ''BANER'' ''Baner Road'',
      restaurant ''Dominos'' ''Pizza, Fast Food'' ''Baner'' ''High Street, Baner'',
      restaurant ''Smoke House'' ''Bar-B-Q, North Indian'' ''Koregaon Park'' ''Lane 5'',
      restaurant ''Grill Yard'' ''Bar.B.Q'' ''Koregaon Park'' ''Lane 7'',
      restaurant ''Cafe Goa'' ''Cafe, Desserts'' ''Koregaon Park'' ''North Main Road'',
      restaurant ''Chai Point'' ''Tea, Cafe'' ''Kothrud'' ''Paud Road'']"

definition fold_case :: "string \<Rightarrow> string" where
  "fold_case doc = map lower_char doc"

definition discrete :: "string \<Rightarrow> string \<Rightarrow> nat" where
  "discrete a b = (if a = b then 0 else 1)"

definition exhaustive_knn ::
  "'v list \<Rightarrow> ('v \<Rightarrow> 'v \<Rightarrow> nat) \<Rightarrow> 'v \<Rightarrow> nat \<Rightarrow> py_error + nat list" where
  "exhaustive_knn fitted distance q k =
     (if length fitted < k then Inl ValueError
      else Inr (take k (sort_key (\<lambda>i. distance q (fitted ! i)) [0 ..< length fitted])))"

definition sample_texts :: "string list" where
  "sample_texts = dropna (map combine sample_records)"

definition sample_files :: "string files" where
  "sample_files =
     \<lparr>data_csv = Some (sample_header, sample_records),
      vectorizer_pkl = Some fold_case,
      knn_pkl = Some (exhaustive_knn (map fold_case sample_texts) discrete)\<rparr>"

definition sample_df :: dataframe where
  "sample_df =
     \<lparr>columns = sample_header @ [''combined_text''],
      rows = zip [0 ..< 6] (map (\<lambda>r. r\<lparr>combined_text := combine r\<rparr>) sample_records)\<rparr>"

definition sample_globals :: "string globals" where
  "sample_globals =
     \<lparr>df = sample_df, vectorizer = fold_case,
      knn_model = exhaustive_knn (map fold_case sample_texts) discrete,
      tfidf_matrix = map fold_case sample_texts, filtered_df = None\<rparr>"




text \<open>A table in which a cuisine is written with parentheses.\<close>

definition spicy_records :: "row list" where
  "spicy_records =
     [restaurant ''Casa Roja'' ''Tex-Mex (Spicy)'' ''Aundh'' ''DP Road'',
      restaurant ''El Fuego'' ''Tex-Mex Spicy, Grill'' ''Aundh'' ''ITI Road'',
      restaurant ''Tandoor Live'' ''Grill (Live'' ''Aundh'' ''Link Road'']"

definition spicy_df :: dataframe where
  "spicy_df =
     \<lparr>columns = sample_header @ [''combined_text''],
      rows = zip [0 ..< 3] (map (\<lambda>r. r\<lparr>combined_text := combine r\<rparr>) spicy_records)\<rparr>"

section \<open>Properties\<close>

subsection \<open>The filters\<close>

lemma boolean_index_subseq: "subseq (map fst (filter snd (zip xs keep))) xs"
proof (induction xs arbitrary: keep)
  case Nil
  show ?case by simp
next
  case (Cons x xs)
  show ?case
  proof (cases keep)
    case Nil
    then show ?thesis by simp
  next
    case (Cons b bs)
    with Cons.IH [of bs] show ?thesis by (cases b) auto
  qed
qed

lemma boolean_index_map: "map fst (filter snd (zip xs (map f xs))) = filter f xs"
  by (induction xs) auto

lemma locality_filter_rows:
  "locality_filter d l = Inr d' \<Longrightarrow>
     rows d' = filter (\<lambda>p. Locality (snd p) = Some l) (rows d) \<and> columns d' = columns d"
proof -
  assume a: "locality_filter d l = Inr d'"
  have m: "map (\<lambda>c. c = Some l) (map (\<lambda>p. Locality (snd p)) (rows d))
           = map (\<lambda>p. Locality (snd p) = Some l) (rows d)"
    by simp
  from a have "d' = boolean_index d (map (\<lambda>p. Locality (snd p) = Some l) (rows d))"
    unfolding locality_filter_def getitem_def
    by (auto simp: comp_def split: if_splits)
  then show ?thesis
    by (simp add: boolean_index_def boolean_index_map)
qed

lemma cuisine_filter_subseq:
  "cuisine_filter d c = Inr d' \<Longrightarrow> subseq (rows d') (rows d) \<and> columns d' = columns d"
proof -
  assume a: "cuisine_filter d c = Inr d'"
  then obtain keep where "d' = boolean_index d keep"
    unfolding cuisine_filter_def getitem_def
    by (auto split: if_splits sum.splits)
  then show ?thesis
    by (simp add: boolean_index_def boolean_index_subseq)
qed

lemma apply_filters_subseq: "subseq (rows (fst (apply_filters d l c))) (rows d)"
proof -
  have loc: "subseq (rows d1) (rows d)" if "locality_filter d l = Inr d1" for d1
    using locality_filter_rows [OF that] by simp
  have cui: "subseq (rows d2) (rows d1)" if "cuisine_filter d1 c = Inr d2" for d1 d2
    using cuisine_filter_subseq [OF that] by simp
  show ?thesis
  proof (cases "if l \<noteq> ''Any'' then locality_filter d l else Inr d")
    case (Inl e)
    then show ?thesis by (simp add: apply_filters_def)
  next
    case (Inr d1)
    then have s1: "subseq (rows d1) (rows d)"
      by (cases "l = ''Any''") (auto dest: loc)
    show ?thesis
    proof (cases "if c \<noteq> ''Any'' then cuisine_filter d1 c else Inr d1")
      case (Inl e)
      with Inr s1 show ?thesis by (simp add: apply_filters_def)
    next
      case (Inr d2)
      then have "subseq (rows d2) (rows d1)"
        by (cases "c = ''Any''") (auto dest: cui)
      then have "subseq (rows d2) (rows d)"
        using s1 by (rule subseq_order.trans)
      with Inr \<open>(if l \<noteq> ''Any'' then locality_filter d l else Inr d) = Inr d1\<close>
      show ?thesis by (simp add: apply_filters_def)
    qed
  qed
qed

lemma apply_filters_columns: "columns (fst (apply_filters d l c)) = columns d"
proof (cases "if l \<noteq> ''Any'' then locality_filter d l else Inr d")
  case (Inl e)
  then show ?thesis by (simp add: apply_filters_def)
next
  case (Inr d1)
  then have c1: "columns d1 = columns d"
    by (cases "l = ''Any''") (auto dest: locality_filter_rows)
  show ?thesis
  proof (cases "if c \<noteq> ''Any'' then cuisine_filter d1 c else Inr d1")
    case (Inl e)
    with Inr c1 show ?thesis by (simp add: apply_filters_def)
  next
    case (Inr d2)
    then have "columns d2 = columns d1"
      by (cases "c = ''Any''") (auto dest: cuisine_filter_subseq)
    with c1 Inr \<open>(if l \<noteq> ''Any'' then locality_filter d l else Inr d) = Inr d1\<close>
    show ?thesis by (simp add: apply_filters_def)
  qed
qed

text \<open>
  C5. Whatever locality and cuisine are selected, the filtered view is a subsequence of
  the original table: its rows, with their index labels, are rows of the table and come
  in the table's order. This holds for every value that \<^verbatim>\<open>filtered_df\<close> takes, also
  when a filter raises.
\<close>

theorem filtered_view_is_subsequence:
  "subseq (rows (fst (apply_filters d l c))) (rows d) \<and>
   set (rows (fst (apply_filters d l c))) \<subseteq> set (rows d)"
  using apply_filters_subseq [of d l c] by (auto dest: list_emb_set)

text \<open>
  C7. With locality ``Any'' and cuisine ``Any'' the filtered view is the whole table,
  and no filter raises.
\<close>

theorem any_any_is_identity: "apply_filters d ''Any'' ''Any'' = (d, None)"
  by (simp add: apply_filters_def)

subsection \<open>The sample installation, evaluated\<close>

lemmas upt_unfold = upt_rec [of 0] upt_rec [of "Suc n" for n] upt_rec [of "numeral n" for n]

lemma restaurant_fields:
  "Restaurant_Name (restaurant a b c d) = Some a"
  "Cuisines (restaurant a b c d) = Some b"
  "Locality (restaurant a b c d) = Some c"
  "Detail_address (restaurant a b c d) = Some d"
  "combine (restaurant a b c d) = Some (a @ '' '' @ b @ '' '' @ c)"
  by (simp_all add: restaurant_def combine_def str_add_def)

lemma sample_rows:
  "rows (df sample_globals) =
     [(0, (restaurant ''Dominos'' ''Pizza, Fast Food'' ''BANER'' ''Baner Road'')
            \<lparr>combined_text := Some ''Dominos Pizza, Fast Food BANER''\<rparr>),
      (1, (restaurant ''Dominos'' ''Pizza, Fast Food'' ''Baner'' ''High Street, Baner'')
            \<lparr>combined_text := Some ''Dominos Pizza, Fast Food Baner''\<rparr>),
      (2, (restaurant ''Smoke House'' ''Bar-B-Q, North Indian'' ''Koregaon Park'' ''Lane 5'')
            \<lparr>combined_text := Some ''Smoke House Bar-B-Q, North Indian Koregaon Park''\<rparr>),
      (3, (restaurant ''Grill Yard'' ''Bar.B.Q'' ''Koregaon Park'' ''Lane 7'')
            \<lparr>combined_text := Some ''Grill Yard Bar.B.Q Koregaon Park''\<rparr>),
      (4, (restaurant ''Cafe Goa'' ''Cafe, Desserts'' ''Koregaon Park'' ''North Main Road'')
            \<lparr>combined_text := Some ''Cafe Goa Cafe, Desserts Koregaon Park''\<rparr>),
      (5, (restaurant ''Chai Point'' ''Tea, Cafe'' ''Kothrud'' ''Paud Road'')
            \<lparr>combined_text := Some ''Chai Point Tea, Cafe Kothrud''\<rparr>)]"
  by (simp add: sample_globals_def sample_df_def sample_records_def restaurant_fields upt_unfold)

lemma sample_columns:
  "columns (df sample_globals) =
     [''Restaurant_Name'', ''Cuisines'', ''Locality'', ''Detail_address'',
      ''Ratings_out_of_5'', ''Number of votes'', ''combined_text'']"
  by (simp add: sample_globals_def sample_df_def sample_header_def)

lemma sample_df_globals: "df sample_globals = sample_df"
  by (simp add: sample_globals_def)

lemma sample_models:
  "vectorizer sample_globals = fold_case"
  "knn_model sample_globals = exhaustive_knn (map fold_case sample_texts) discrete"
  by (simp_all add: sample_globals_def)

lemma sample_fitted:
  "map fold_case sample_texts =
     [''dominos pizza, fast food baner'', ''dominos pizza, fast food baner'',
      ''smoke house bar-b-q, north indian koregaon park'',
      ''grill yard bar.b.q koregaon park'',
      ''cafe goa cafe, desserts koregaon park'',
      ''chai point tea, cafe kothrud'']"
  by code_simp

lemma startup_sample: "startup sample_files = ([], Inr sample_globals)"
  by (simp add: startup_def sample_files_def sample_globals_def load_data_def load_models_def
      read_csv_def add_combined_text_def sample_header_def sample_df_def getitem_def
      sample_records_def sample_texts_def dropna_def List.map_filter_def restaurant_def
      combine_def str_add_def transform_def upt_unfold)

lemma sample_view_baner:
  "apply_filters (df sample_globals) ''Baner'' ''Any''
     = ((df sample_globals)\<lparr>rows :=
          [(1, (restaurant ''Dominos'' ''Pizza, Fast Food'' ''Baner'' ''High Street, Baner'')
                 \<lparr>combined_text := Some ''Dominos Pizza, Fast Food Baner''\<rparr>)]\<rparr>, None)"
  by (simp add: apply_filters_def locality_filter_def getitem_def boolean_index_def
      sample_rows sample_columns restaurant_fields)

lemma sample_view_BANER:
  "apply_filters (df sample_globals) ''BANER'' ''Any''
     = ((df sample_globals)\<lparr>rows :=
          [(0, (restaurant ''Dominos'' ''Pizza, Fast Food'' ''BANER'' ''Baner Road'')
                 \<lparr>combined_text := Some ''Dominos Pizza, Fast Food BANER''\<rparr>)]\<rparr>, None)"
  by (simp add: apply_filters_def locality_filter_def getitem_def boolean_index_def
      sample_rows sample_columns restaurant_fields)

text \<open>
  The scenario of the specification, on the sample: three of the rows have the
  locality ``Koregaon Park'', and selecting it keeps those three, in the table's order.
\<close>

lemma sample_view_koregaon:
  "apply_filters (df sample_globals) ''Koregaon Park'' ''Any''
     = ((df sample_globals)\<lparr>rows :=
          [(2, (restaurant ''Smoke House'' ''Bar-B-Q, North Indian'' ''Koregaon Park'' ''Lane 5'')
            \<lparr>combined_text := Some ''Smoke House Bar-B-Q, North Indian Koregaon Park''\<rparr>),
      (3, (restaurant ''Grill Yard'' ''Bar.B.Q'' ''Koregaon Park'' ''Lane 7'')
            \<lparr>combined_text := Some ''Grill Yard Bar.B.Q Koregaon Park''\<rparr>),
      (4, (restaurant ''Cafe Goa'' ''Cafe, Desserts'' ''Koregaon Park'' ''North Main Road'')
            \<lparr>combined_text := Some ''Cafe Goa Cafe, Desserts Koregaon Park''\<rparr>)]\<rparr>, None)"
  by (simp add: apply_filters_def locality_filter_def getitem_def boolean_index_def
      sample_rows sample_columns restaurant_fields)

lemma sample_view_kothrud:
  "locality_filter (df sample_globals) ''Kothrud''
     = Inr ((df sample_globals)\<lparr>rows :=
          [(5, (restaurant ''Chai Point'' ''Tea, Cafe'' ''Kothrud'' ''Paud Road'')
            \<lparr>combined_text := Some ''Chai Point Tea, Cafe Kothrud''\<rparr>)]\<rparr>)"
  by (simp add: locality_filter_def getitem_def boolean_index_def
      sample_rows sample_columns restaurant_fields)

subsection \<open>The cuisine criterion\<close>

lemma cuisine_filter_compiled:
  assumes "re_compile sel = Inr r" and "''Cuisines'' \<in> set (columns d)"
  shows "cuisine_filter d sel
           = Inr (d\<lparr>rows := filter (\<lambda>p. case Cuisines (snd p) of None \<Rightarrow> False
                                              | Some s \<Rightarrow> re_search r s) (rows d)\<rparr>)"
proof -
  have "cuisine_filter d sel
        = Inr (boolean_index d (map (\<lambda>p. case Cuisines (snd p) of None \<Rightarrow> False
                                            | Some s \<Rightarrow> re_search r s) (rows d)))"
    using assms
    by (simp add: cuisine_filter_def getitem_def str_contains_def comp_def)
  then show ?thesis
    by (simp only: boolean_index_def boolean_index_map)
qed

lemma cuisine_filter_drops_missing:
  assumes "cuisine_filter d sel = Inr d'" and "p \<in> set (rows d')"
  shows "Cuisines (snd p) \<noteq> None"
proof -
  from assms(1) obtain r where r: "re_compile sel = Inr r" and "''Cuisines'' \<in> set (columns d)"
    unfolding cuisine_filter_def getitem_def str_contains_def
    by (auto split: if_splits sum.splits)
  from cuisine_filter_compiled [OF this] assms(1)
  have "rows d' = filter (\<lambda>p. case Cuisines (snd p) of None \<Rightarrow> False
                                      | Some s \<Rightarrow> re_search r s) (rows d)"
    by auto
  with assms(2) show ?thesis
    by (auto split: option.splits)
qed

text \<open>A plain criterion compiles to its letters in a row.\<close>

lemma parse_plain:
  "plain pat \<Longrightarrow>
     parse outer (bs, items) pat = parse outer (bs, rev (map Literal pat) @ items) []"
proof (induction pat arbitrary: items)
  case Nil
  show ?case by simp
next
  case (Cons c pat)
  from Cons.prems have c: "c \<notin> set re_special" and pat: "plain pat"
    by (auto simp: plain_def)
  from c have "parse outer (bs, items) (c # pat) = parse outer (bs, Literal c # items) pat"
    by (auto simp: re_special_def)
  with Cons.IH [OF pat, of "Literal c # items"] show ?case by simp
qed

lemma sequence_rev: "sequence (rev items) = foldr Cat items Eps"
  by (simp add: sequence_def foldl_conv_foldr)

lemma re_compile_plain:
  "plain pat \<Longrightarrow> re_compile pat = Inr (foldr Cat (map Literal pat) Eps)"
  using parse_plain [of pat "[]" "[]" "[]"] sequence_rev [of "map Literal pat"]
  by (simp add: re_compile_def alternatives_def)

lemma ends_letters:
  "(ends (foldr Cat (map Literal pat) Eps) (b, s) \<noteq> [])
     = prefix (map lower_char pat) (map lower_char s)"
proof (induction pat arbitrary: b s)
  case Nil
  show ?case by simp
next
  case (Cons a pat)
  show ?case
  proof (cases s)
    case Nil
    then show ?thesis by simp
  next
    case (Cons c cs)
    with Cons.IH [of False cs] show ?thesis by simp
  qed
qed

lemma search_letters:
  "search_from (foldr Cat (map Literal pat) Eps) b s
     = sublist (map lower_char pat) (map lower_char s)"
proof (induction s arbitrary: b)
  case Nil
  show ?case using ends_letters [of pat b "[]"] by simp
next
  case (Cons c s)
  show ?case
    using ends_letters [of pat b "c # s"] Cons.IH [of False]
    by (simp add: sublist_Cons_right)
qed

text \<open>
  Where the filter and the statement of C6 agree: for a selected cuisine other than
  ``Any'' that is plain (no character of it is special in a pattern), on ASCII texts,
  the rows kept are exactly the rows whose cuisines are present and contain the
  selected text as a case-insensitive substring, in the table's order.
\<close>

lemma plain_cuisine_is_substring_match:
  assumes "sel \<noteq> ''Any''" and "plain sel" and "''Cuisines'' \<in> set (columns d)"
    and "ascii sel"
    and "list_all (\<lambda>p. case Cuisines (snd p) of None \<Rightarrow> True | Some s \<Rightarrow> ascii s) (rows d)"
  shows "apply_filters d ''Any'' sel = (d\<lparr>rows := filter (substring_keeps sel) (rows d)\<rparr>, None)"
proof -
  have keep: "(\<lambda>p. case Cuisines (snd p) of None \<Rightarrow> False
                     | Some s \<Rightarrow> re_search (foldr Cat (map Literal sel) Eps) s)
        = substring_keeps sel"
    by (auto simp: fun_eq_iff substring_keeps_def contains_ignoring_case_def re_search_def
        search_letters split: option.splits)
  from cuisine_filter_compiled [OF re_compile_plain [OF assms(2)] assms(3)]
  have "cuisine_filter d sel = Inr (d\<lparr>rows := filter (substring_keeps sel) (rows d)\<rparr>)"
    by (simp only: keep)
  with assms(1) show ?thesis
    by (simp add: apply_filters_def)
qed

lemma spicy_rows:
  "rows spicy_df =
     [(0, (restaurant ''Casa Roja'' ''Tex-Mex (Spicy)'' ''Aundh'' ''DP Road'')
            \<lparr>combined_text := Some ''Casa Roja Tex-Mex (Spicy) Aundh''\<rparr>),
      (1, (restaurant ''El Fuego'' ''Tex-Mex Spicy, Grill'' ''Aundh'' ''ITI Road'')
            \<lparr>combined_text := Some ''El Fuego Tex-Mex Spicy, Grill Aundh''\<rparr>),
      (2, (restaurant ''Tandoor Live'' ''Grill (Live'' ''Aundh'' ''Link Road'')
            \<lparr>combined_text := Some ''Tandoor Live Grill (Live Aundh''\<rparr>)]"
  by (simp add: spicy_df_def spicy_records_def restaurant_fields upt_unfold)

lemma spicy_columns: "''Cuisines'' \<in> set (columns spicy_df)"
  by (simp add: spicy_df_def sample_header_def)

lemma spicy_built: "add_combined_text (read_csv (sample_header, spicy_records)) = Inr spicy_df"
  by (simp add: add_combined_text_def read_csv_def sample_header_def spicy_df_def
      spicy_records_def upt_unfold)

lemma spicy_options:
  "cuisine_options spicy_df
     = [''Any'', ''Grill'', ''Grill (Live'', ''Tex-Mex (Spicy)'', ''Tex-Mex Spicy'']"
  by code_simp

lemma spicy_compiled:
  "re_compile ''Tex-Mex (Spicy)''
     = Inr (foldr Cat (map Literal ''Tex-Mex '')
              (Cat (Subpattern (foldr Cat (map Literal ''Spicy'') Eps)) Eps))"
  by code_simp

lemma spicy_search:
  "map (re_search (foldr Cat (map Literal ''Tex-Mex '')
              (Cat (Subpattern (foldr Cat (map Literal ''Spicy'') Eps)) Eps)))
       [''Tex-Mex (Spicy)'', ''Tex-Mex Spicy, Grill'', ''Grill (Live'']
     = [False, True, False]"
  by code_simp

lemma spicy_unclosed: "re_compile ''Grill (Live'' = Inl Re_error"
  by code_simp

text \<open>
  C6 on the code. The select box offers the cuisines as they are written in the cells
  (line 73), and line 88 searches for the selected one as a pattern. On a table with
  the cuisines ``Tex-Mex (Spicy)'', ``Tex-Mex Spicy, Grill'' and ``Grill (Live'': the
  offered ``Tex-Mex (Spicy)'' keeps the row 1 only, whose cuisines do not contain it,
  and drops the row 0, whose cuisines are that very text; the offered ``Grill (Live''
  keeps no row at all, the filter raises \<^verbatim>\<open>re.error\<close>.
\<close>

theorem offered_cuisine_misses_its_own_row:
  "add_combined_text (read_csv (sample_header, spicy_records)) = Inr spicy_df
   \<and> map (Cuisines \<circ> snd) (rows spicy_df)
       = [Some ''Tex-Mex (Spicy)'', Some ''Tex-Mex Spicy, Grill'', Some ''Grill (Live'']
   \<and> ''Tex-Mex (Spicy)'' \<in> set (cuisine_options spicy_df)
   \<and> ''Tex-Mex (Spicy)'' \<noteq> ''Any''
   \<and> snd (apply_filters spicy_df ''Any'' ''Tex-Mex (Spicy)'') = None
   \<and> map fst (rows (fst (apply_filters spicy_df ''Any'' ''Tex-Mex (Spicy)''))) = [1]
   \<and> contains_ignoring_case ''Tex-Mex (Spicy)'' ''Tex-Mex (Spicy)''
   \<and> \<not> contains_ignoring_case ''Tex-Mex Spicy, Grill'' ''Tex-Mex (Spicy)''
   \<and> ''Grill (Live'' \<in> set (cuisine_options spicy_df)
   \<and> ''Grill (Live'' \<noteq> ''Any''
   \<and> snd (apply_filters spicy_df ''Any'' ''Grill (Live'') = Some Re_error"
proof -
  have view: "cuisine_filter spicy_df ''Tex-Mex (Spicy)''
      = Inr (spicy_df\<lparr>rows := [(1, (restaurant ''El Fuego'' ''Tex-Mex Spicy, Grill'' ''Aundh'' ''ITI Road'')
            \<lparr>combined_text := Some ''El Fuego Tex-Mex Spicy, Grill Aundh''\<rparr>)]\<rparr>)"
    using spicy_search
    by (simp add: cuisine_filter_compiled [OF spicy_compiled spicy_columns] spicy_rows
        restaurant_fields)
  have raised: "cuisine_filter spicy_df ''Grill (Live'' = Inl Re_error"
    using spicy_columns
    by (simp add: cuisine_filter_def getitem_def str_contains_def spicy_unclosed)
  have c1: "contains_ignoring_case ''Tex-Mex (Spicy)'' ''Tex-Mex (Spicy)''"
    by (simp add: contains_ignoring_case_def)
  have c2: "\<not> contains_ignoring_case ''Tex-Mex Spicy, Grill'' ''Tex-Mex (Spicy)''"
    by code_simp
  show ?thesis
    using c1 c2
    by (simp add: spicy_built spicy_rows restaurant_fields spicy_options apply_filters_def
        view raised)
qed

lemma sample_options:
  "cuisine_options sample_df
     = [''Any'', ''Bar-B-Q'', ''Bar.B.Q'', ''Cafe'', ''Desserts'', ''Fast Food'',
        ''North Indian'', ''Pizza'', ''Tea'']"
  by code_simp

lemma barbq_compiled:
  "re_compile ''Bar.B.Q''
     = Inr (foldr Cat [Literal CHR ''B'', Literal CHR ''a'', Literal CHR ''r'', Dot,
                      Literal CHR ''B'', Dot, Literal CHR ''Q''] Eps)"
  by code_simp

lemma barbq_search:
  "map (re_search (foldr Cat [Literal CHR ''B'', Literal CHR ''a'', Literal CHR ''r'', Dot,
                      Literal CHR ''B'', Dot, Literal CHR ''Q''] Eps))
       [''Pizza, Fast Food'', ''Bar-B-Q, North Indian'', ''Bar.B.Q'', ''Cafe, Desserts'',
        ''Tea, Cafe'']
     = [False, True, True, False, False]"
  by code_simp

lemma barbq_literally:
  "map (\<lambda>s. contains_literally s ''Bar.B.Q'')
       [''Pizza, Fast Food'', ''Bar-B-Q, North Indian'', ''Bar.B.Q'', ''Cafe, Desserts'',
        ''Tea, Cafe'']
     = [False, False, True, False, False]"
  by code_simp

lemma barbq_folded:
  "map (\<lambda>s. contains_ignoring_case s ''Bar.B.Q'')
       [''Pizza, Fast Food'', ''Bar-B-Q, North Indian'', ''Bar.B.Q'', ''Cafe, Desserts'',
        ''Tea, Cafe'']
     = [False, False, True, False, False]"
  by code_simp

text \<open>
  C9. The selected cuisine is searched for as a regular expression, not as a literal
  text. The sample table offers the cuisine ``Bar.B.Q''; it compiles to the pattern in
  which each dot stands for any character; selecting it keeps the rows 2 and 3, with
  the cuisines ``Bar-B-Q, North Indian'' and ``Bar.B.Q'', while the rows whose cuisines
  contain the selected text, letter for letter or with case ignored, are the row 3
  alone.
\<close>

theorem cuisine_is_a_pattern:
  "''Bar.B.Q'' \<in> set (cuisine_options sample_df)
   \<and> ''Bar.B.Q'' \<noteq> ''Any''
   \<and> \<not> plain ''Bar.B.Q''
   \<and> re_compile ''Bar.B.Q''
       = Inr (foldr Cat [Literal CHR ''B'', Literal CHR ''a'', Literal CHR ''r'', Dot,
                        Literal CHR ''B'', Dot, Literal CHR ''Q''] Eps)
   \<and> snd (apply_filters sample_df ''Any'' ''Bar.B.Q'') = None
   \<and> map fst (rows (fst (apply_filters sample_df ''Any'' ''Bar.B.Q''))) = [2, 3]
   \<and> map (Cuisines \<circ> snd) (rows (fst (apply_filters sample_df ''Any'' ''Bar.B.Q'')))
       = [Some ''Bar-B-Q, North Indian'', Some ''Bar.B.Q'']
   \<and> map fst (filter (literally_keeps ''Bar.B.Q'') (rows sample_df)) = [3]
   \<and> map fst (filter (substring_keeps ''Bar.B.Q'') (rows sample_df)) = [3]"
proof -
  have cols: "''Cuisines'' \<in> set (columns sample_df)"
    by (simp add: sample_df_def sample_header_def)
  have rows: "rows sample_df = rows (df sample_globals)"
    by (simp add: sample_df_globals)
  have special: "\<not> plain ''Bar.B.Q''"
    by (simp add: plain_def re_special_def)
  have view: "apply_filters sample_df ''Any'' ''Bar.B.Q''
      = (sample_df\<lparr>rows :=
          [(2, (restaurant ''Smoke House'' ''Bar-B-Q, North Indian'' ''Koregaon Park'' ''Lane 5'')
            \<lparr>combined_text := Some ''Smoke House Bar-B-Q, North Indian Koregaon Park''\<rparr>),
           (3, (restaurant ''Grill Yard'' ''Bar.B.Q'' ''Koregaon Park'' ''Lane 7'')
            \<lparr>combined_text := Some ''Grill Yard Bar.B.Q Koregaon Park''\<rparr>)]\<rparr>, None)"
    using barbq_search
    by (simp add: apply_filters_def cuisine_filter_compiled [OF barbq_compiled cols] rows
        sample_rows restaurant_fields)
  have lit: "map fst (filter (literally_keeps ''Bar.B.Q'') (rows sample_df)) = [3]"
    using barbq_literally
    by (simp add: rows sample_rows literally_keeps_def restaurant_fields)
  have fold: "map fst (filter (substring_keeps ''Bar.B.Q'') (rows sample_df)) = [3]"
    using barbq_folded
    by (simp add: rows sample_rows substring_keeps_def restaurant_fields)
  show ?thesis
    using special lit fold
    by (simp add: sample_options barbq_compiled view restaurant_fields)
qed

subsection \<open>An empty filtered view\<close>

text \<open>
  C4. When the filters return a view without rows, the handler shows the no-match
  warning and nothing else, raises nothing, and sends no query to the nearest-neighbour
  index.
\<close>

theorem no_match_warns_without_query:
  assumes "snd (apply_filters (df g) l c) = None"
    and "rows (fst (apply_filters (df g) l c)) = []"
  shows "shown (find_restaurants g l c) = [St_warning]
       \<and> raised (find_restaurants g l c) = None
       \<and> (\<forall>q k. Kneighbors q k \<notin> set (shown (find_restaurants g l c)))"
proof -
  obtain fd where fd: "apply_filters (df g) l c = (fd, None)" and "rows fd = []"
    using assms by (cases "apply_filters (df g) l c") auto
  then have "find_restaurants g l c
      = \<lparr>shown = [St_warning], globals_after = g\<lparr>filtered_df := Some fd\<rparr>, raised = None\<rparr>"
    by (simp add: find_restaurants_def frame_empty_def)
  then show ?thesis by simp
qed

lemma pizza_compiled:
  "re_compile ''Pizza'' = Inr (foldr Cat (map Literal ''Pizza'') Eps)"
  by (rule re_compile_plain) (simp add: plain_def re_special_def)

lemma pizza_search: "re_search (foldr Cat (map Literal ''Pizza'') Eps) ''Tea, Cafe'' = False"
  by code_simp

lemma sample_view_kothrud_pizza:
  "apply_filters (df sample_globals) ''Kothrud'' ''Pizza''
     = ((df sample_globals)\<lparr>rows := []\<rparr>, None)"
  using pizza_search
  by (simp add: apply_filters_def sample_view_kothrud cuisine_filter_compiled [OF pizza_compiled]
      sample_columns restaurant_fields)

theorem no_match_warns_without_query_witness:
  "shown (find_restaurants sample_globals ''Kothrud'' ''Pizza'') = [St_warning]
   \<and> raised (find_restaurants sample_globals ''Kothrud'' ''Pizza'') = None"
proof -
  have a: "snd (apply_filters (df sample_globals) ''Kothrud'' ''Pizza'') = None"
    by (simp add: sample_view_kothrud_pizza)
  have b: "rows (fst (apply_filters (df sample_globals) ''Kothrud'' ''Pizza'')) = []"
    by (simp add: sample_view_kothrud_pizza)
  from no_match_warns_without_query [OF a b] show ?thesis by simp
qed

subsection \<open>The text feature matrix\<close>

lemma count_vocab_rows:
  "count_vocab vec docs = Inr m \<Longrightarrow>
     length m = length docs \<and> (\<forall>i < length docs. \<exists>t. docs ! i = Some t \<and> m ! i = vec t)"
proof (induction docs arbitrary: m)
  case Nil
  then show ?case by simp
next
  case (Cons doc docs)
  from Cons.prems obtain t m' where doc: "doc = Some t" and m': "count_vocab vec docs = Inr m'"
    and m: "m = vec t # m'"
    by (cases doc) (auto split: sum.splits)
  from Cons.IH [OF m'] have len: "length m' = length docs"
    and ih: "\<And>i. i < length docs \<Longrightarrow> \<exists>t. docs ! i = Some t \<and> m' ! i = vec t"
    by simp_all
  show ?case
  proof (intro conjI allI impI)
    show "length m = length (doc # docs)" using m len by simp
  next
    fix i assume "i < length (doc # docs)"
    then show "\<exists>t. (doc # docs) ! i = Some t \<and> m ! i = vec t"
      using doc m ih by (cases i) auto
  qed
qed

lemma transform_rows:
  "transform vec docs = Inr m \<Longrightarrow>
     length m = length docs \<and> (\<forall>i < length docs. \<exists>t. docs ! i = Some t \<and> m ! i = vec t)"
  using count_vocab_rows [of vec docs m]
  by (auto simp: transform_def split: sum.splits if_splits)

lemma transform_one [simp]:
  "transform vec [Some q] = Inr [vec q]"
  "transform vec [None] = Inl ValueError"
  by (simp_all add: transform_def)

lemma combine_Some:
  "combine r = Some t \<Longrightarrow>
     \<exists>name cui loc. Restaurant_Name r = Some name \<and> Cuisines r = Some cui \<and> Locality r = Some loc
        \<and> t = name @ '' '' @ cui @ '' '' @ loc"
  by (auto simp: combine_def str_add_def split: option.splits)


lemma combine_update: "combine (r\<lparr>combined_text := t\<rparr>) = combine r"
  by (simp add: combine_def)

lemma add_combined_text_rows:
  assumes "add_combined_text d0 = Inr d"
  shows "rows d = map (\<lambda>p. (fst p, (snd p)\<lparr>combined_text := combine (snd p)\<rparr>)) (rows d0)"
    and "''combined_text'' \<in> set (columns d)"
    and "set (columns d0) \<subseteq> set (columns d)"
    and "''Restaurant_Name'' \<in> set (columns d)"
    and "''Cuisines'' \<in> set (columns d)"
    and "''Locality'' \<in> set (columns d)"
  using assms by (auto simp: add_combined_text_def split: if_splits)

lemma add_combined_text_row:
  assumes "add_combined_text d0 = Inr d" and "p \<in> set (rows d)"
  shows "combined_text (snd p) = combine (snd p)"
  using assms(2) unfolding add_combined_text_rows(1) [OF assms(1)]
  by (auto simp: combine_update)

lemma startup_Inr:
  assumes "startup fs = (evs, Inr g)"
  obtains f where "data_csv fs = Some f" and "evs = []"
    and "add_combined_text (read_csv f) = Inr (df g)"
    and "transform (vectorizer g) (map (\<lambda>p. combined_text (snd p)) (rows (df g))) = Inr (tfidf_matrix g)"
    and "vectorizer_pkl fs = Some (vectorizer g)" and "knn_pkl fs = Some (knn_model g)"
    and "filtered_df g = None"
proof (cases "data_csv fs")
  case None
  with assms show ?thesis
    by (auto simp: startup_def load_data_def load_models_def add_combined_text_def empty_frame_def
        split: option.splits sum.splits)
next
  case (Some f)
  with assms that [of f] show ?thesis
    by (auto simp: startup_def load_data_def load_models_def getitem_def
        split: option.splits sum.splits if_splits)
qed

lemma find_restaurants_globals:
  "globals_after (find_restaurants g l c) = g\<lparr>filtered_df := Some (fst (apply_filters (df g) l c))\<rparr>"
  by (cases "apply_filters (df g) l c")
     (auto simp: find_restaurants_def split: option.splits prod.splits)

text \<open>
  C8. After a start that raised nothing, the matrix has one row per row of the table;
  the index labels of the table are the positions \<open>0, 1, 2, ...\<close>; at every position the
  three text fields are present, the combined text is the name, the cuisines and the
  locality joined by single spaces, and the row of the matrix at that position is the
  vectorizer's transform of that text. A run of the button handler, whatever is
  selected, leaves the table, the matrix and the two models as they were.
\<close>

theorem matrix_rows_follow_table_rows:
  assumes "startup fs = (evs, Inr g)"
  shows "length (tfidf_matrix g) = length (rows (df g))
       \<and> map fst (rows (df g)) = [0 ..< length (rows (df g))]
       \<and> (\<forall>i < length (rows (df g)). \<exists>name cui loc.
             Restaurant_Name (snd (rows (df g) ! i)) = Some name
           \<and> Cuisines (snd (rows (df g) ! i)) = Some cui
           \<and> Locality (snd (rows (df g) ! i)) = Some loc
           \<and> combined_text (snd (rows (df g) ! i)) = Some (name @ '' '' @ cui @ '' '' @ loc)
           \<and> tfidf_matrix g ! i = vectorizer g (name @ '' '' @ cui @ '' '' @ loc))
       \<and> df (globals_after (find_restaurants g l c)) = df g
       \<and> tfidf_matrix (globals_after (find_restaurants g l c)) = tfidf_matrix g
       \<and> vectorizer (globals_after (find_restaurants g l c)) = vectorizer g
       \<and> knn_model (globals_after (find_restaurants g l c)) = knn_model g"
proof -
  from assms obtain f where built: "add_combined_text (read_csv f) = Inr (df g)"
    and tr: "transform (vectorizer g) (map (\<lambda>p. combined_text (snd p)) (rows (df g)))
               = Inr (tfidf_matrix g)"
    by (rule startup_Inr)
  from transform_rows [OF tr]
  have len: "length (tfidf_matrix g) = length (rows (df g))"
    and vec: "\<And>i. i < length (rows (df g)) \<Longrightarrow>
        \<exists>t. combined_text (snd (rows (df g) ! i)) = Some t \<and> tfidf_matrix g ! i = vectorizer g t"
    by simp_all
  have labels: "map fst (rows (df g)) = [0 ..< length (rows (df g))]"
    unfolding add_combined_text_rows(1) [OF built]
    by (simp add: read_csv_def comp_def)
  have fields: "\<exists>name cui loc.
             Restaurant_Name (snd (rows (df g) ! i)) = Some name
           \<and> Cuisines (snd (rows (df g) ! i)) = Some cui
           \<and> Locality (snd (rows (df g) ! i)) = Some loc
           \<and> combined_text (snd (rows (df g) ! i)) = Some (name @ '' '' @ cui @ '' '' @ loc)
           \<and> tfidf_matrix g ! i = vectorizer g (name @ '' '' @ cui @ '' '' @ loc)"
    if i: "i < length (rows (df g))" for i
  proof -
    from vec [OF i] obtain t where t: "combined_text (snd (rows (df g) ! i)) = Some t"
      and v: "tfidf_matrix g ! i = vectorizer g t"
      by blast
    from i have "rows (df g) ! i \<in> set (rows (df g))" by simp
    from add_combined_text_row [OF built this] t
    have "combine (snd (rows (df g) ! i)) = Some t" by simp
    from combine_Some [OF this] t v show ?thesis by auto
  qed
  show ?thesis
    using len labels fields by (simp add: find_restaurants_globals)
qed

lemma apply_filters_subset: "set (rows (fst (apply_filters d l c))) \<subseteq> set (rows d)"
  using apply_filters_subseq [of d l c] by (auto dest: list_emb_set)

theorem matrix_rows_follow_table_rows_witness:
  "length (tfidf_matrix sample_globals) = 6
   \<and> map fst (rows (df sample_globals)) = [0, 1, 2, 3, 4, 5]
   \<and> tfidf_matrix sample_globals ! 4 = fold_case ''Cafe Goa Cafe, Desserts Koregaon Park''"
proof -
  note th = matrix_rows_follow_table_rows [OF startup_sample, of "''Any''" "''Any''"]
  have n: "length (rows (df sample_globals)) = 6" by (simp add: sample_rows restaurant_fields)
  have i: "(4::nat) < length (rows (df sample_globals))" by (simp add: sample_rows restaurant_fields)
  have name: "Restaurant_Name (snd (rows (df sample_globals) ! 4)) = Some ''Cafe Goa''"
    by (simp add: sample_rows restaurant_fields)
  have cui: "Cuisines (snd (rows (df sample_globals) ! 4)) = Some ''Cafe, Desserts''"
    by (simp add: sample_rows restaurant_fields)
  have loc: "Locality (snd (rows (df sample_globals) ! 4)) = Some ''Koregaon Park''"
    by (simp add: sample_rows restaurant_fields)
  have v: "vectorizer sample_globals = fold_case"
    by (simp add: sample_globals_def)
  from th i obtain a b c where
    "Restaurant_Name (snd (rows (df sample_globals) ! 4)) = Some a"
    "Cuisines (snd (rows (df sample_globals) ! 4)) = Some b"
    "Locality (snd (rows (df sample_globals) ! 4)) = Some c"
    "tfidf_matrix sample_globals ! 4 = vectorizer sample_globals (a @ '' '' @ b @ '' '' @ c)"
    by blast
  with name cui loc v
  have "tfidf_matrix sample_globals ! 4 = fold_case ''Cafe Goa Cafe, Desserts Koregaon Park''"
    by simp
  moreover from th n have "length (tfidf_matrix sample_globals) = 6" by simp
  moreover from th n have "map fst (rows (df sample_globals)) = [0, 1, 2, 3, 4, 5]"
    by (simp add: upt_unfold)
  ultimately show ?thesis by simp
qed

subsection \<open>A missing text field\<close>







subsection \<open>A missing data file\<close>

text \<open>
  C2 on the code. With the data file absent and both model files present,
  \<^verbatim>\<open>load_data\<close> shows its error and returns a frame without rows, raising nothing; the
  frame has no columns either, so line 52 raises \<open>KeyError\<close> and the run ends there,
  whatever the user does: nothing but the loader's error is shown.
\<close>

theorem missing_data_file_raises_key_error:
  assumes "data_csv fs = None" and "vectorizer_pkl fs = Some vec" and "knn_pkl fs = Some knn"
  shows "load_data fs = ([St_error], empty_frame)
       \<and> rows empty_frame = []
       \<and> app fs u = ([St_error], Some (KeyError ''Restaurant_Name''))"
  using assms
  by (simp add: load_data_def empty_frame_def app_def startup_def load_models_def
      add_combined_text_def)

theorem missing_data_file_raises_key_error_witness:
  "app (sample_files\<lparr>data_csv := None\<rparr>)
       \<lparr>selected_locality = ''Any'', selected_cuisine = ''Any'', button = False\<rparr>
   = ([St_error], Some (KeyError ''Restaurant_Name''))"
proof -
  have a: "data_csv (sample_files\<lparr>data_csv := None\<rparr>) = None" by simp
  have b: "vectorizer_pkl (sample_files\<lparr>data_csv := None\<rparr>) = Some fold_case"
    by (simp add: sample_files_def)
  have c: "knn_pkl (sample_files\<lparr>data_csv := None\<rparr>)
           = Some (exhaustive_knn (map fold_case sample_texts) discrete)"
    by (simp add: sample_files_def)
  from missing_data_file_raises_key_error [OF a b c] show ?thesis by simp
qed

subsection \<open>The recommendations\<close>

lemma render_card_ok:
  assumes "has_card_columns d" and "n < length (rows d)"
    and "Detail_address (snd (rows d ! n)) = Some a"
  shows "render_card d n = Inr (make_card (snd (rows d ! n)) a)"
  using assms by (simp add: render_card_def iloc_def row_getitem_def has_card_columns_def)

lemma render_card_in_range: "render_card d n = Inr k \<Longrightarrow> n < length (rows d)"
  by (auto simp: render_card_def iloc_def split: if_splits)

lemma present_cards:
  assumes "has_card_columns d"
    and "\<forall>n \<in> set ns. n < length (rows d) \<and> Detail_address (snd (rows d ! n)) \<noteq> None"
  shows "\<exists>cs. length cs = length ns \<and> map (render_card d) ns = map Inr cs
           \<and> present d ns = (cs, None)"
  using assms(2)
proof (induction ns)
  case Nil
  show ?case by simp
next
  case (Cons n ns)
  from Cons.prems obtain a where "n < length (rows d)"
    and "Detail_address (snd (rows d ! n)) = Some a"
    by auto
  from render_card_ok [OF assms(1) this]
  have n: "render_card d n = Inr (make_card (snd (rows d ! n)) a)" .
  from Cons obtain cs where "length cs = length ns"
    and "map (render_card d) ns = map Inr cs"
    and "present d ns = (cs, None)"
    by auto
  with n have "length (make_card (snd (rows d ! n)) a # cs) = length (n # ns)
      \<and> map (render_card d) (n # ns) = map Inr (make_card (snd (rows d ! n)) a # cs)
      \<and> present d (n # ns) = (make_card (snd (rows d ! n)) a # cs, None)"
    by simp
  then show ?case by blast
qed

lemma present_in_table:
  "k \<in> set (fst (present d ns)) \<Longrightarrow> \<exists>n \<in> set ns. render_card d n = Inr k"
proof (induction ns)
  case Nil
  then show ?case by simp
next
  case (Cons n ns)
  show ?case
  proof (cases "render_card d n")
    case (Inl e)
    with Cons.prems show ?thesis by simp
  next
    case (Inr c')
    with Cons.prems have "k = c' \<or> k \<in> set (fst (present d ns))"
      by (auto split: prod.splits)
    then show ?thesis
      using Inr Cons.IH by auto
  qed
qed

lemma recommend_globals: "recommend (g\<lparr>filtered_df := x\<rparr>) fd = recommend g fd"
  by (simp add: recommend_def split: sum.splits list.splits prod.splits)

lemma recommend_in_table:
  assumes "St_card k \<in> set (fst (recommend g fd))"
  shows "\<exists>n < length (rows (df g)). render_card (df g) n = Inr k"
proof -
  from assms have "\<exists>ns. k \<in> set (fst (present (df g) ns))"
    unfolding recommend_def
    by (auto split: sum.splits list.splits prod.splits) (metis fst_conv)
  then obtain ns where "k \<in> set (fst (present (df g) ns))" ..
  from present_in_table [OF this] show ?thesis
    using render_card_in_range by blast
qed

lemma recommend_seed_only:
  assumes "rows fd1 = seed # rest1" and "rows fd2 = seed # rest2"
    and "columns fd1 = columns fd2"
  shows "recommend g fd1 = recommend g fd2"
  using assms by (simp add: recommend_def iloc_def row_getitem_def)

lemma find_restaurants_view:
  assumes "snd (apply_filters (df g) l c) = None"
    and "rows (fst (apply_filters (df g) l c)) = seed # rest"
  shows "shown (find_restaurants g l c)
           = (if columns (df g) = [] then [St_warning]
              else St_success (Suc (length rest))
                   # fst (recommend g (fst (apply_filters (df g) l c))))
       \<and> raised (find_restaurants g l c)
           = (if columns (df g) = [] then None
              else snd (recommend g (fst (apply_filters (df g) l c))))"
proof -
  obtain fd where fd: "apply_filters (df g) l c = (fd, None)" and rows: "rows fd = seed # rest"
    using assms by (cases "apply_filters (df g) l c") auto
  have "columns fd = columns (df g)"
    using apply_filters_columns [of "df g" l c] fd by simp
  with fd rows show ?thesis
    by (auto simp: find_restaurants_def frame_empty_def recommend_globals split: prod.splits)
qed

text \<open>
  What the handler shows when the index answers the query with 6 indices of which the
  last 5 can be shown: the number of matches, that one query, and exactly 5 cards, those
  of the rows of the original table at the last 5 indices, in order. The first index of
  the answer is dropped without being looked at.
\<close>

lemma five_cards_after_the_first_index:
  assumes "snd (apply_filters (df g) l c) = None"
    and "rows (fst (apply_filters (df g) l c)) = (i, r) # rest"
    and "''combined_text'' \<in> set (columns (df g))"
    and "combined_text r = Some q"
    and "knn_model g (vectorizer g q) 6 = Inr ns"
    and "length ns = 6"
    and "has_card_columns (df g)"
    and "\<forall>n \<in> set (tl ns). n < length (rows (df g))
            \<and> Detail_address (snd (rows (df g) ! n)) \<noteq> None"
  shows "\<exists>cs. length cs = 5
           \<and> map (render_card (df g)) (tl ns) = map Inr cs
           \<and> shown (find_restaurants g l c)
               = St_success (Suc (length rest)) # Kneighbors [vectorizer g q] 6 # St_heading
                 # map St_card cs
           \<and> raised (find_restaurants g l c) = None"
proof -
  let ?fd = "fst (apply_filters (df g) l c)"
  from present_cards [OF assms(7,8)] obtain cs where
    len: "length cs = length (tl ns)"
    and cards: "map (render_card (df g)) (tl ns) = map Inr cs"
    and pres: "present (df g) (tl ns) = (cs, None)"
    by blast
  have cols: "columns ?fd = columns (df g)"
    by (rule apply_filters_columns)
  have "recommend g ?fd
        = (Kneighbors [vectorizer g q] 6 # St_heading # map St_card cs, None)"
    using assms(2,3,4,5) cols pres
    by (simp add: recommend_def iloc_def row_getitem_def)
  moreover from assms(3) have "columns (df g) \<noteq> []" by auto
  ultimately have
    "shown (find_restaurants g l c)
       = St_success (Suc (length rest)) # Kneighbors [vectorizer g q] 6 # St_heading
         # map St_card cs"
    "raised (find_restaurants g l c) = None"
    using find_restaurants_view [OF assms(1,2)] by simp_all
  moreover from len assms(6) have "length cs = 5" by simp
  ultimately show ?thesis using cards by blast
qed

lemma fold_case_baner:
  "fold_case ''Dominos Pizza, Fast Food Baner'' = ''dominos pizza, fast food baner''"
  by code_simp

lemma sample_answer_baner:
  "knn_model sample_globals (vectorizer sample_globals ''Dominos Pizza, Fast Food Baner'') 6
     = Inr [0, 1, 2, 3, 4, 5]"
  by (simp add: sample_models sample_fitted fold_case_baner exhaustive_knn_def discrete_def
      upt_unfold)

lemma sample_has_card_columns: "has_card_columns (df sample_globals)"
  by (simp add: has_card_columns_def sample_columns)

lemma card_address_make_card: "card_address (make_card r a) = a"
  by (simp add: make_card_def)

lemma card_addresses_cards:
  "card_addresses (map St_card cs) = map card_address cs"
  by (induction cs) simp_all

lemma sample_present_baner:
  "map card_address (fst (present (df sample_globals) [1, 2, 3, 4, 5]))
     = [''High Street, Baner'', ''Lane 5'', ''Lane 7'', ''North Main Road'', ''Paud Road'']
   \<and> snd (present (df sample_globals) [1, 2, 3, 4, 5]) = None"
  by (simp add: render_card_def iloc_def row_getitem_def sample_rows sample_columns
      restaurant_fields card_address_make_card)

lemma recommend_answer:
  assumes "rows fd = (i, r) # rest" and "''combined_text'' \<in> set (columns fd)"
    and "combined_text r = Some q" and "knn_model g (vectorizer g q) 6 = Inr ns"
  shows "recommend g fd
           = (Kneighbors [vectorizer g q] 6 # St_heading
                # map St_card (fst (present (df g) (tl ns))),
              snd (present (df g) (tl ns)))"
  using assms by (simp add: recommend_def iloc_def row_getitem_def split: prod.splits)

lemma sample_run_baner:
  "shown (find_restaurants sample_globals ''Baner'' ''Any'')
     = St_success 1 # Kneighbors [''dominos pizza, fast food baner''] 6 # St_heading
       # map St_card (fst (present (df sample_globals) [1, 2, 3, 4, 5]))"
proof -
  have "recommend sample_globals (fst (apply_filters (df sample_globals) ''Baner'' ''Any''))
      = (Kneighbors [vectorizer sample_globals ''Dominos Pizza, Fast Food Baner''] 6 # St_heading
           # map St_card (fst (present (df sample_globals) (tl [0, 1, 2, 3, 4, 5]))),
         snd (present (df sample_globals) (tl [0, 1, 2, 3, 4, 5])))"
  proof (rule recommend_answer [OF _ _ _ sample_answer_baner])
    show "rows (fst (apply_filters (df sample_globals) ''Baner'' ''Any''))
        = (1, (restaurant ''Dominos'' ''Pizza, Fast Food'' ''Baner'' ''High Street, Baner'')
                \<lparr>combined_text := Some ''Dominos Pizza, Fast Food Baner''\<rparr>) # []"
      by (simp add: sample_view_baner)
    show "''combined_text'' \<in> set (columns (fst (apply_filters (df sample_globals) ''Baner'' ''Any'')))"
      by (simp add: sample_view_baner sample_columns)
    show "combined_text ((restaurant ''Dominos'' ''Pizza, Fast Food'' ''Baner'' ''High Street, Baner'')
                \<lparr>combined_text := Some ''Dominos Pizza, Fast Food Baner''\<rparr>)
          = Some ''Dominos Pizza, Fast Food Baner''"
      by simp
  qed
  moreover have "columns (df sample_globals) \<noteq> []"
    by (simp add: sample_columns)
  ultimately show ?thesis
    using find_restaurants_view [of sample_globals "''Baner''" "''Any''"]
    by (simp add: sample_view_baner sample_models fold_case_baner)
qed

text \<open>
  C1 on the code. The loop of line 101 drops the first index of the answer as the seed
  ``itself'', without comparing it with the seed's index. On the sample installation
  the table has 6 rows; the user selects the offered locality ``Baner''; the view is the
  row with index 1, whose combined text is present. The index answers with 6 indices,
  nearest first, and the first of them is 0, not 1: the rows 0 and 1 differ in the
  letter case of the locality only, so their vectors are equal. The 5 cards shown start
  with the seed restaurant itself, and the restaurant of row 0 is not shown.
\<close>

theorem first_index_is_not_the_seed:
  "snd (startup sample_files) = Inr sample_globals
   \<and> ''Baner'' \<in> set (locality_options (df sample_globals))
   \<and> snd (apply_filters (df sample_globals) ''Baner'' ''Any'') = None
   \<and> map fst (rows (fst (apply_filters (df sample_globals) ''Baner'' ''Any''))) = [1]
   \<and> map (combined_text \<circ> snd) (rows (fst (apply_filters (df sample_globals) ''Baner'' ''Any'')))
       = [Some ''Dominos Pizza, Fast Food Baner'']
   \<and> length (rows (df sample_globals)) = 6
   \<and> knn_model sample_globals (vectorizer sample_globals ''Dominos Pizza, Fast Food Baner'') 6
       = Inr [0, 1, 2, 3, 4, 5]
   \<and> card_addresses (shown (find_restaurants sample_globals ''Baner'' ''Any''))
       = [''High Street, Baner'', ''Lane 5'', ''Lane 7'', ''North Main Road'', ''Paud Road'']"
proof -
  have "''Baner'' \<in> set (locality_options (df sample_globals))"
    by (simp add: locality_options_def localities_def getitem_def sample_columns sample_rows
        restaurant_fields dropna_def List.map_filter_def)
  moreover have "length (rows (df sample_globals)) = 6"
    by (simp add: sample_rows)
  moreover have "card_addresses (shown (find_restaurants sample_globals ''Baner'' ''Any''))
       = [''High Street, Baner'', ''Lane 5'', ''Lane 7'', ''North Main Road'', ''Paud Road'']"
    using sample_present_baner by (simp add: sample_run_baner card_addresses_cards)
  ultimately show ?thesis
    using sample_answer_baner by (simp add: startup_sample sample_view_baner)
qed

lemma fold_case_BANER:
  "fold_case ''Dominos Pizza, Fast Food BANER'' = ''dominos pizza, fast food baner''"
  by code_simp

lemma sample_answer_BANER:
  "knn_model sample_globals (vectorizer sample_globals ''Dominos Pizza, Fast Food BANER'') 6
     = Inr [0, 1, 2, 3, 4, 5]"
  by (simp add: sample_models sample_fitted fold_case_BANER exhaustive_knn_def discrete_def
      upt_unfold)

text \<open>
  C3. Two selections whose views start with the same row show the same
  recommendations, and raise the same: apart from the number of matches, the selection
  counts only through the seed row. Every card shown is the card of a row of the
  original table, read by position. When the index answers the seed's query with
  \<open>ns\<close>, the cards are those of the loop over all of \<open>ns\<close> but its first index, run on the
  original table.
\<close>

theorem recommendations_come_from_whole_table:
  assumes "snd (apply_filters (df g) l1 c1) = None"
    and "snd (apply_filters (df g) l2 c2) = None"
    and "rows (fst (apply_filters (df g) l1 c1)) = seed # rest1"
    and "rows (fst (apply_filters (df g) l2 c2)) = seed # rest2"
  shows "tl (shown (find_restaurants g l1 c1)) = tl (shown (find_restaurants g l2 c2))
       \<and> raised (find_restaurants g l1 c1) = raised (find_restaurants g l2 c2)
       \<and> (\<forall>k. St_card k \<in> set (shown (find_restaurants g l1 c1)) \<longrightarrow>
              (\<exists>n < length (rows (df g)). render_card (df g) n = Inr k))
       \<and> (\<forall>q ns. ''combined_text'' \<in> set (columns (df g))
              \<and> combined_text (snd seed) = Some q
              \<and> knn_model g (vectorizer g q) 6 = Inr ns \<longrightarrow>
              tl (shown (find_restaurants g l1 c1))
                = Kneighbors [vectorizer g q] 6 # St_heading
                  # map St_card (fst (present (df g) (tl ns))))"
proof -
  let ?fd1 = "fst (apply_filters (df g) l1 c1)"
  let ?fd2 = "fst (apply_filters (df g) l2 c2)"
  note v1 = find_restaurants_view [OF assms(1,3)]
  note v2 = find_restaurants_view [OF assms(2,4)]
  have cols: "columns ?fd1 = columns (df g)" "columns ?fd2 = columns (df g)"
    by (rule apply_filters_columns)+
  then have same: "recommend g ?fd1 = recommend g ?fd2"
    using recommend_seed_only [OF assms(3,4)] by simp
  have tails: "tl (shown (find_restaurants g l1 c1)) = tl (shown (find_restaurants g l2 c2))"
    and raises: "raised (find_restaurants g l1 c1) = raised (find_restaurants g l2 c2)"
    using v1 v2 same by simp_all
  have table: "\<exists>n < length (rows (df g)). render_card (df g) n = Inr k"
    if "St_card k \<in> set (shown (find_restaurants g l1 c1))" for k
  proof -
    from that v1 have "St_card k \<in> set (fst (recommend g ?fd1))"
      by (auto split: if_splits)
    then show ?thesis by (rule recommend_in_table)
  qed
  have answer: "tl (shown (find_restaurants g l1 c1))
                = Kneighbors [vectorizer g q] 6 # St_heading
                  # map St_card (fst (present (df g) (tl ns)))"
    if "''combined_text'' \<in> set (columns (df g))" and "combined_text (snd seed) = Some q"
      and "knn_model g (vectorizer g q) 6 = Inr ns" for q ns
  proof -
    from assms(3) have "rows ?fd1 = (fst seed, snd seed) # rest1" by simp
    from recommend_answer [OF this _ that(2,3)] that(1) cols(1)
    have "fst (recommend g ?fd1)
        = Kneighbors [vectorizer g q] 6 # St_heading
          # map St_card (fst (present (df g) (tl ns)))"
      by simp
    moreover from that(1) have "columns (df g) \<noteq> []" by auto
    ultimately show ?thesis using v1 by simp
  qed
  from tails raises table answer show ?thesis by blast
qed

theorem recommendations_come_from_whole_table_witness:
  "tl (shown (find_restaurants sample_globals ''BANER'' ''Any''))
     = tl (shown (find_restaurants sample_globals ''Any'' ''Any''))
   \<and> map fst (rows (fst (apply_filters (df sample_globals) ''BANER'' ''Any''))) = [0]
   \<and> card_addresses (tl (shown (find_restaurants sample_globals ''BANER'' ''Any'')))
       = [''High Street, Baner'', ''Lane 5'', ''Lane 7'', ''North Main Road'', ''Paud Road'']"
proof -
  let ?seed = "(0 :: nat, (restaurant ''Dominos'' ''Pizza, Fast Food'' ''BANER'' ''Baner Road'')
                 \<lparr>combined_text := Some ''Dominos Pizza, Fast Food BANER''\<rparr>)"
  have a: "snd (apply_filters (df sample_globals) ''BANER'' ''Any'') = None"
    by (simp add: sample_view_BANER)
  have b: "snd (apply_filters (df sample_globals) ''Any'' ''Any'') = None"
    by (simp add: apply_filters_def)
  have c: "rows (fst (apply_filters (df sample_globals) ''BANER'' ''Any'')) = ?seed # []"
    by (simp add: sample_view_BANER)
  have d: "rows (fst (apply_filters (df sample_globals) ''Any'' ''Any''))
             = ?seed # tl (rows (df sample_globals))"
    by (simp add: apply_filters_def sample_rows)
  note th = recommendations_come_from_whole_table [OF a b c d]
  have "''combined_text'' \<in> set (columns (df sample_globals))
      \<and> combined_text (snd ?seed) = Some ''Dominos Pizza, Fast Food BANER''
      \<and> knn_model sample_globals (vectorizer sample_globals ''Dominos Pizza, Fast Food BANER'') 6
          = Inr [0, 1, 2, 3, 4, 5]"
    using sample_answer_BANER by (simp add: sample_columns)
  with th have "tl (shown (find_restaurants sample_globals ''BANER'' ''Any''))
      = Kneighbors [vectorizer sample_globals ''Dominos Pizza, Fast Food BANER''] 6 # St_heading
        # map St_card (fst (present (df sample_globals) (tl [0, 1, 2, 3, 4, 5])))"
    by blast
  then have "card_addresses (tl (shown (find_restaurants sample_globals ''BANER'' ''Any'')))
       = [''High Street, Baner'', ''Lane 5'', ''Lane 7'', ''North Main Road'', ''Paud Road'']"
    using sample_present_baner by (simp add: card_addresses_cards)
  with th c show ?thesis by simp
qed

end
